theory Spec2Isabelle
  imports Main "HOL-Library.AList"
begin

section \<open>Python values and the built-ins the relay uses\<close>

text \<open>
  A Python \<open>str\<close> is a list of code points: natural numbers below 0x110000, the
  surrogates 0xD800 to 0xDFFF among them, since a \<open>str\<close> can hold them (\<open>json.loads\<close>
  returns one for the escape \<open>\ud800\<close>). \<open>u\<close> gives the \<open>str\<close> of a literal. \<open>bytes\<close> is a
  \<open>string\<close> whose characters are octets.
\<close>

type_synonym str = "nat list"

type_synonym bytes = string

definition u :: "string \<Rightarrow> str" where
  "u s = map of_char s"

datatype pyfloat = Finite int int | PosInf | NegInf | NaN

datatype pyval =
    PNone
  | PBool bool
  | PInt int
  | PFloat pyfloat
  | PStr str
  | PList "pyval list"
  | PDict "(str \<times> pyval) list"

text \<open>Truth value testing (\<open>bool(v)\<close>).\<close>

fun truthy :: "pyval \<Rightarrow> bool" where
  "truthy PNone = False"
| "truthy (PBool b) = b"
| "truthy (PInt i) = (i \<noteq> 0)"
| "truthy (PFloat (Finite m e)) = (m \<noteq> 0)"
| "truthy (PFloat f) = True"
| "truthy (PStr s) = (s \<noteq> [])"
| "truthy (PList xs) = (xs \<noteq> [])"
| "truthy (PDict kvs) = (kvs \<noteq> [])"

text \<open>\<open>d.get(k, default)\<close> on the items of a dict.\<close>

definition dict_get :: "(str \<times> pyval) list \<Rightarrow> str \<Rightarrow> pyval \<Rightarrow> pyval" where
  "dict_get kvs k dflt = (case map_of kvs k of None \<Rightarrow> dflt | Some v \<Rightarrow> v)"

text \<open>
  \<open>str.isspace\<close> on one code point (the 29 whitespace code points of Unicode),
  \<open>str.strip()\<close>, \<open>str.rstrip(chars)\<close>.
\<close>

definition py_isspace :: "nat \<Rightarrow> bool" where
  "py_isspace n =
     ((0x09 \<le> n \<and> n \<le> 0x0D) \<or> (0x1C \<le> n \<and> n \<le> 0x20) \<or> n = 0x85 \<or> n = 0xA0
      \<or> n = 0x1680 \<or> (0x2000 \<le> n \<and> n \<le> 0x200A) \<or> n = 0x2028 \<or> n = 0x2029
      \<or> n = 0x202F \<or> n = 0x205F \<or> n = 0x3000)"

definition py_rstrip :: "(nat \<Rightarrow> bool) \<Rightarrow> str \<Rightarrow> str" where
  "py_rstrip p s = rev (dropWhile p (rev s))"

definition py_strip :: "str \<Rightarrow> str" where
  "py_strip s = py_rstrip py_isspace (dropWhile py_isspace s)"

text \<open>\<open>str(n)\<close> for an \<open>int\<close>: decimal digits, with a minus sign below zero.\<close>

fun digits :: "nat \<Rightarrow> string" where
  "digits n =
     (if n < 10 then [''0123456789'' ! n]
      else digits (n div 10) @ [''0123456789'' ! (n mod 10)])"

definition str_int :: "int \<Rightarrow> str" where
  "str_int i = u (if i < 0 then CHR ''-'' # digits (nat (- i)) else digits (nat i))"

section \<open>Exceptions\<close>

text \<open>
  The classes of \<open>app.core.exceptions\<close> that the relay raises, the \<open>httpx\<close> transport
  exceptions, and the built-in exceptions that can escape. \<open>HttpxRequestError\<close> stands
  for every \<open>httpx.RequestError\<close> that is not a \<open>httpx.TimeoutException\<close>.
  \<open>UnicodeEncodeError c i\<close> is raised for the code point \<open>c\<close> at position \<open>i\<close>.
\<close>

type_synonym details = "(str \<times> pyval) list"

datatype exc =
    ValidationError str "details option"
  | NetworkError str "details option"
  | TimeoutError str
  | UnauthorizedError str
  | RateLimitedError str
  | HttpxTimeoutException str
  | HttpxRequestError str
  | ValueError str
  | AttributeError str
  | RecursionError str
  | UnicodeEncodeError nat nat

text \<open>\<open>ErrorCode\<close> of app/core/api_models.py, with the value of each member.\<close>

datatype ErrorCode =
    VALIDATION_ERROR | PARSE_ERROR | FILE_TOO_LARGE | INVALID_FORMAT | NETWORK_ERROR
  | TIMEOUT | UNAUTHORIZED | RATE_LIMITED | INTERNAL_ERROR

fun ErrorCode_value :: "ErrorCode \<Rightarrow> str" where
  "ErrorCode_value VALIDATION_ERROR = u ''VALIDATION_ERROR''"
| "ErrorCode_value PARSE_ERROR = u ''PARSE_ERROR''"
| "ErrorCode_value FILE_TOO_LARGE = u ''FILE_TOO_LARGE''"
| "ErrorCode_value INVALID_FORMAT = u ''INVALID_FORMAT''"
| "ErrorCode_value NETWORK_ERROR = u ''NETWORK_ERROR''"
| "ErrorCode_value TIMEOUT = u ''TIMEOUT''"
| "ErrorCode_value UNAUTHORIZED = u ''UNAUTHORIZED''"
| "ErrorCode_value RATE_LIMITED = u ''RATE_LIMITED''"
| "ErrorCode_value INTERNAL_ERROR = u ''INTERNAL_ERROR''"

text \<open>
  Modelled from the spec: app/core/exceptions.py is not among the sources. Each class of
  the relay's exceptions carries the error kind of the taxonomy that bears its name
  (validation, network, timeout, unauthorized, rate limited); an exception that is not
  one of them has no error code of its own.
\<close>

fun error_code :: "exc \<Rightarrow> ErrorCode option" where
  "error_code (ValidationError m d) = Some VALIDATION_ERROR"
| "error_code (NetworkError m d) = Some NETWORK_ERROR"
| "error_code (TimeoutError m) = Some TIMEOUT"
| "error_code (UnauthorizedError m) = Some UNAUTHORIZED"
| "error_code (RateLimitedError m) = Some RATE_LIMITED"
| "error_code e = None"

section \<open>\<open>str.encode("utf-8")\<close>\<close>

text \<open>
  One code point as UTF-8: one octet below 0x80, two below 0x800, three below 0x10000,
  four from there on.
\<close>

definition utf8_char :: "nat \<Rightarrow> bytes" where
  "utf8_char n =
     (if n < 0x80 then [char_of n]
      else if n < 0x800 then [char_of (0xC0 + n div 64), char_of (0x80 + n mod 64)]
      else if n < 0x10000 then
        [char_of (0xE0 + n div 4096), char_of (0x80 + n div 64 mod 64),
         char_of (0x80 + n mod 64)]
      else
        [char_of (0xF0 + n div 262144), char_of (0x80 + n div 4096 mod 64),
         char_of (0x80 + n div 64 mod 64), char_of (0x80 + n mod 64)])"

definition is_surrogate :: "nat \<Rightarrow> bool" where
  "is_surrogate n = (0xD800 \<le> n \<and> n \<le> 0xDFFF)"

text \<open>
  The strict encoder, from position \<open>i\<close> on: it raises \<open>UnicodeEncodeError\<close> at the first
  surrogate ("surrogates not allowed").
\<close>

fun encode_from :: "nat \<Rightarrow> str \<Rightarrow> exc + bytes" where
  "encode_from i [] = Inr []"
| "encode_from i (n # ns) =
     (if is_surrogate n then Inl (UnicodeEncodeError n i)
      else case encode_from (Suc i) ns of
             Inl e \<Rightarrow> Inl e
           | Inr bs \<Rightarrow> Inr (utf8_char n @ bs))"

definition encode_utf8 :: "str \<Rightarrow> exc + bytes" where
  "encode_utf8 s = encode_from 0 s"

section \<open>\<open>json.dumps(obj, ensure_ascii=False)\<close>\<close>

text \<open>One digit of \<open>'{0:04x}'.format(i)\<close>, for \<open>d\<close> below 16.\<close>

definition hex_digit :: "nat \<Rightarrow> char" where
  "hex_digit d = ''0123456789abcdef'' ! d"

text \<open>
  The encoder's escape table: quote, backslash and the short escapes; every other
  code point below 0x20 as \<open>\u00XX\<close>; everything else unchanged, surrogates too.
\<close>

definition escape_char :: "nat \<Rightarrow> str" where
  "escape_char n =
     (if n = 34 then u [CHR 0x5C, CHR 0x22]
      else if n = 92 then u [CHR 0x5C, CHR 0x5C]
      else if n = 10 then u [CHR 0x5C, CHR ''n'']
      else if n = 13 then u [CHR 0x5C, CHR ''r'']
      else if n = 9 then u [CHR 0x5C, CHR ''t'']
      else if n = 8 then u [CHR 0x5C, CHR ''b'']
      else if n = 12 then u [CHR 0x5C, CHR ''f'']
      else if n < 32 then u [CHR 0x5C, CHR ''u'', CHR ''0'', CHR ''0'',
                             hex_digit (n div 16), hex_digit (n mod 16)]
      else [n])"

definition encode_basestring :: "str \<Rightarrow> str" where
  "encode_basestring s = u [CHR 0x22] @ concat (map escape_char s) @ u [CHR 0x22]"

fun intercalate :: "str \<Rightarrow> str list \<Rightarrow> str" where
  "intercalate sep [] = []"
| "intercalate sep [x] = x"
| "intercalate sep (x # y # ys) = x @ sep @ intercalate sep (y # ys)"

text \<open>
  \<open>frepr\<close> is \<open>float.__repr__\<close> on finite floats, which the encoder calls; it is a
  parameter of the model.
\<close>

fun json_dumps :: "(int \<Rightarrow> int \<Rightarrow> str) \<Rightarrow> pyval \<Rightarrow> str" where
  "json_dumps frepr PNone = u ''null''"
| "json_dumps frepr (PBool b) = (if b then u ''true'' else u ''false'')"
| "json_dumps frepr (PInt i) = str_int i"
| "json_dumps frepr (PFloat (Finite m e)) = frepr m e"
| "json_dumps frepr (PFloat PosInf) = u ''Infinity''"
| "json_dumps frepr (PFloat NegInf) = u ''-Infinity''"
| "json_dumps frepr (PFloat NaN) = u ''NaN''"
| "json_dumps frepr (PStr s) = encode_basestring s"
| "json_dumps frepr (PList xs) =
     u ''['' @ intercalate (u '', '') (map (json_dumps frepr) xs) @ u '']''"
| "json_dumps frepr (PDict kvs) =
     u ''{'' @ intercalate (u '', '')
        (map (\<lambda>kv. encode_basestring (fst kv) @ u '': '' @ json_dumps frepr (snd kv)) kvs)
      @ u ''}''"

section \<open>app/api/proxy.py: error framing and status translation\<close>

text \<open>
  \<open>_format_error_event(code, message)\<close>. The annotation says \<open>message: str\<close>; the
  streaming path passes whatever the upstream body held, so the model takes any value.
  The call raises when the text to encode holds a surrogate.
\<close>

definition format_error_event :: "(int \<Rightarrow> int \<Rightarrow> str) \<Rightarrow> str \<Rightarrow> pyval \<Rightarrow> exc + bytes" where
  "format_error_event frepr code message =
     (let payload = json_dumps frepr (PDict [(u ''code'', PStr code), (u ''message'', message)])
      in encode_utf8 (u ''event: error'' @ u [CHR 0x0A] @ u ''data: '' @ payload
                      @ u [CHR 0x0A, CHR 0x0A]))"

definition map_error_code :: "int \<Rightarrow> str" where
  "map_error_code status_code =
     (if status_code = 401 then u ''UNAUTHORIZED''
      else if status_code = 429 then u ''RATE_LIMITED''
      else if status_code = 400 then u ''VALIDATION_ERROR''
      else u ''UPSTREAM_ERROR'')"

section \<open>The transport and the library calls\<close>

datatype transport_failure = TimeoutException str | RequestError str

record http_request =
  req_method :: str
  url :: str
  headers :: "(str \<times> str) list"
  json_body :: "(str \<times> pyval) list option"

text \<open>
  What parsing JSON gives: the value, or \<open>ValueError(m)\<close> (\<open>JSONDecodeError\<close> and
  \<open>UnicodeDecodeError\<close> are subclasses of it) for a text that is not JSON, or
  \<open>RecursionError(m)\<close>, which is not a \<open>ValueError\<close>, for a text nested too deeply.
\<close>

datatype json_outcome = Parsed pyval | NotJson str | TooDeep str

text \<open>
  A buffered \<open>httpx.Response\<close>: \<open>resp_text\<close> is \<open>response.text\<close> and \<open>json\<close> is what
  \<open>response.json()\<close> gives.
\<close>

record response =
  status_code :: int
  resp_text :: str
  json :: json_outcome

text \<open>
  A streamed response: the status, the chunks that arrive, and how the body ends
  (\<open>None\<close>: upstream closes; \<open>Some f\<close>: the transport raises \<open>f\<close> after the chunks).
\<close>

record stream_response =
  stream_status :: int
  chunks :: "bytes list"
  ending :: "transport_failure option"

text \<open>\<open>urllib.parse.urlparse\<close>: the three attributes of the result that the relay reads.\<close>

record parse_result =
  scheme :: str
  netloc :: str
  hostname :: "str option"

text \<open>
  The library functions the sources call and this theory does not define. A sum result
  is \<open>Inl m\<close> when the call raises \<open>ValueError(m)\<close> (or a subclass of it).
  \<open>nonascii_lower\<close> is \<open>str.lower()\<close> on a text with a code point from 0x80 on.
\<close>

record pylib =
  float_repr :: "int \<Rightarrow> int \<Rightarrow> str"
  other_str :: "pyval \<Rightarrow> str"
  json_loads :: "str \<Rightarrow> json_outcome"
  decode_utf8 :: "bytes \<Rightarrow> str + str"
  decode_utf8_ignore :: "bytes \<Rightarrow> str"
  urlparse :: "str \<Rightarrow> str + parse_result"
  nonascii_lower :: "str \<Rightarrow> str"

text \<open>\<open>str.lower()\<close>: on an ASCII text the letters A-Z move to a-z.\<close>

definition ascii_lower :: "nat \<Rightarrow> nat" where
  "ascii_lower n = (if 65 \<le> n \<and> n \<le> 90 then n + 32 else n)"

definition py_lower :: "pylib \<Rightarrow> str \<Rightarrow> str" where
  "py_lower L s = (if list_all (\<lambda>n. n < 128) s then map ascii_lower s else nonascii_lower L s)"

text \<open>\<open>type(v).__name__\<close> and \<open>str(v)\<close>.\<close>

fun type_name :: "pyval \<Rightarrow> string" where
  "type_name PNone = ''NoneType''"
| "type_name (PBool b) = ''bool''"
| "type_name (PInt i) = ''int''"
| "type_name (PFloat f) = ''float''"
| "type_name (PStr s) = ''str''"
| "type_name (PList xs) = ''list''"
| "type_name (PDict kvs) = ''dict''"

fun py_str :: "pylib \<Rightarrow> pyval \<Rightarrow> str" where
  "py_str L (PStr s) = s"
| "py_str L (PInt i) = str_int i"
| "py_str L (PBool b) = (if b then u ''True'' else u ''False'')"
| "py_str L PNone = u ''None''"
| "py_str L v = other_str L v"

section \<open>app/core/api_models.py\<close>

record SupplierChatRequest =
  base_url :: str
  api_key :: str
  model :: str
  messages :: "pyval list"
  stream :: bool
  temperature :: "pyfloat option"
  tools :: "pyval list option"
  tool_choice :: pyval

datatype SupplierModel = SupplierModel (id: str)

section \<open>app/core/supplier\_proxy.py\<close>

definition normalize_base_url :: "pylib \<Rightarrow> str \<Rightarrow> exc + str" where
  "normalize_base_url L b =
     (if b = [] \<or> py_strip b = [] then
        Inl (ValidationError (u ''API '' @ [0x5730, 0x5740, 0x4E0D, 0x80FD, 0x4E3A, 0x7A7A])
               None)
      else
        case urlparse L b of
          Inl m \<Rightarrow> Inl (ValueError m)
        | Inr parsed \<Rightarrow>
            if scheme parsed = [] \<or> netloc parsed = [] then
              Inl (ValidationError (u ''API '' @ [0x5730, 0x5740, 0x65E0, 0x6548]) None)
            else
              let host = (case hostname parsed of None \<Rightarrow> [] | Some h \<Rightarrow> h)
              in if py_lower L host \<in> set [u ''localhost'', u ''127.0.0.1'', u ''::1''] then
                   Inl (ValidationError
                          (u ''API '' @ [0x5730, 0x5740, 0x4E0D, 0x80FD, 0x4E3A]
                           @ u '' localhost'') None)
                 else Inr (py_rstrip (\<lambda>c. c = of_char (CHR ''/'')) b))"

text \<open>The loop of \<open>fetch_models\<close> over \<open>data\<close>.\<close>

fun collect_models :: "pylib \<Rightarrow> pyval list \<Rightarrow> SupplierModel list" where
  "collect_models L [] = []"
| "collect_models L (PDict kvs # items) =
     (if truthy (dict_get kvs (u ''id'') PNone)
      then SupplierModel (py_str L (dict_get kvs (u ''id'') PNone)) # collect_models L items
      else collect_models L items)"
| "collect_models L (item # items) = collect_models L items"

text \<open>
  \<open>fetch_models(base_url, api_key)\<close>. \<open>do_get\<close> is the upstream: what the GET gives.
  The result comes with the requests that were sent. Around \<open>response.json()\<close> the
  function catches \<open>ValueError\<close> only.
\<close>

definition fetch_models ::
  "pylib \<Rightarrow> (http_request \<Rightarrow> transport_failure + response) \<Rightarrow> str \<Rightarrow> str
   \<Rightarrow> (exc + SupplierModel list) \<times> http_request list" where
  "fetch_models L do_get b key =
     (if key = [] \<or> py_strip key = [] then
        (Inl (ValidationError (u ''API Key '' @ [0x4E0D, 0x80FD, 0x4E3A, 0x7A7A]) None), [])
      else
        case normalize_base_url L b of
          Inl e \<Rightarrow> (Inl e, [])
        | Inr normalized \<Rightarrow>
            let req = \<lparr> req_method = u ''GET'', url = normalized @ u ''/v1/models'',
                        headers = [(u ''Accept'', u ''application/json''),
                                   (u ''Authorization'', u ''Bearer '' @ key)],
                        json_body = None \<rparr>
            in (case do_get req of
                  Inl (TimeoutException m) \<Rightarrow> Inl (TimeoutError (u ''Request timed out''))
                | Inl (RequestError m) \<Rightarrow>
                    Inl (NetworkError (u ''Network request failed'')
                           (Some [(u ''error'', PStr m)]))
                | Inr r \<Rightarrow>
                    if status_code r = 401 then Inl (UnauthorizedError (u ''Unauthorized''))
                    else if status_code r = 429 then
                      Inl (RateLimitedError (u ''Rate limit exceeded''))
                    else if status_code r \<ge> 400 then
                      Inl (NetworkError (u ''Upstream error: '' @ str_int (status_code r))
                             (Some [(u ''status_code'', PInt (status_code r))]))
                    else
                      (case json r of
                         NotJson m \<Rightarrow>
                           Inl (ValidationError
                                  [0x54CD, 0x5E94, 0x89E3, 0x6790, 0x5931, 0x8D25]
                                  (Some [(u ''error'', PStr m)]))
                       | TooDeep m \<Rightarrow> Inl (RecursionError m)
                       | Parsed payload \<Rightarrow>
                           let data = (case payload of
                                         PDict kvs \<Rightarrow> dict_get kvs (u ''data'') PNone
                                       | _ \<Rightarrow> PNone)
                           in (case data of
                                 PList items \<Rightarrow> Inr (collect_models L items)
                               | _ \<Rightarrow> Inr [])),
                [req]))"

section \<open>app/api/proxy.py: the chat relay\<close>

text \<open>
  The outgoing body, which \<open>_stream_chat\<close> and \<open>_request_chat\<close> build with the same
  statements but for the value of \<open>stream\<close>: three keys, then one key for each optional
  field that is not \<open>None\<close>.
\<close>

definition chat_body :: "SupplierChatRequest \<Rightarrow> bool \<Rightarrow> (str \<times> pyval) list" where
  "chat_body payload flag =
     (let body = [(u ''model'', PStr (model payload)),
                  (u ''messages'', PList (messages payload)),
                  (u ''stream'', PBool flag)];
          body = (case temperature payload of
                    None \<Rightarrow> body
                  | Some t \<Rightarrow> AList.update (u ''temperature'') (PFloat t) body);
          body = (case tools payload of
                    None \<Rightarrow> body
                  | Some ts \<Rightarrow> AList.update (u ''tools'') (PList ts) body);
          body = (if tool_choice payload \<noteq> PNone
                  then AList.update (u ''tool_choice'') (tool_choice payload) body
                  else body)
      in body)"

definition chat_request :: "SupplierChatRequest \<Rightarrow> str \<Rightarrow> bool \<Rightarrow> http_request" where
  "chat_request payload b flag =
     \<lparr> req_method = u ''POST'', url = b @ u ''/v1/chat/completions'',
       headers = [(u ''Accept'',
                   if flag then u ''text/event-stream'' else u ''application/json''),
                  (u ''Content-Type'', u ''application/json''),
                  (u ''Authorization'', u ''Bearer '' @ api_key payload)],
       json_body = Some (chat_body payload flag) \<rparr>"

text \<open>
  \<open>parsed.get("error", {}).get("message", parsed.get("message", message))\<close> on the items
  of the dict \<open>parsed\<close>: the second \<open>get\<close> is an attribute of whatever the first returns.
\<close>

definition extract_message :: "(str \<times> pyval) list \<Rightarrow> pyval \<Rightarrow> exc + pyval" where
  "extract_message kvs message =
     (case dict_get kvs (u ''error'') (PDict []) of
        PDict inner \<Rightarrow>
          Inr (dict_get inner (u ''message'') (dict_get kvs (u ''message'') message))
      | v \<Rightarrow> Inl (AttributeError
                   (u ([CHR 0x27] @ type_name v @ [CHR 0x27] @ '' object has no attribute ''
                       @ [CHR 0x27] @ ''get'' @ [CHR 0x27]))))"

definition upstream_error_text :: "int \<Rightarrow> str" where
  "upstream_error_text st = u ''Upstream error ('' @ str_int st @ u '')''"

text \<open>What a consumer of an async generator sees: the chunks yielded, then the end.\<close>

record generated =
  yielded :: "bytes list"
  raised :: "exc option"

text \<open>
  \<open>yield f(...)\<close> as the last statement of a run that has yielded \<open>before\<close>: the chunk
  is yielded when the call returns it, and the generator ends by raising when the call
  raises.
\<close>

definition emit :: "bytes list \<Rightarrow> exc + bytes \<Rightarrow> generated" where
  "emit before ev =
     (case ev of
        Inl e \<Rightarrow> \<lparr> yielded = before, raised = Some e \<rparr>
      | Inr chunk \<Rightarrow> \<lparr> yielded = before @ [chunk], raised = None \<rparr>)"

text \<open>\<open>await response.aread()\<close>: the whole body, or the failure of the transport.\<close>

definition aread :: "stream_response \<Rightarrow> transport_failure + bytes" where
  "aread r = (case ending r of Some f \<Rightarrow> Inl f | None \<Rightarrow> Inr (concat (chunks r)))"

text \<open>The event of each of the two \<open>except\<close> clauses around the streaming request.\<close>

definition on_transport_failure :: "pylib \<Rightarrow> transport_failure \<Rightarrow> exc + bytes" where
  "on_transport_failure L f =
     (case f of
        TimeoutException m \<Rightarrow>
          format_error_event (float_repr L) (u ''TIMEOUT'') (PStr (u ''Request timed out''))
      | RequestError m \<Rightarrow>
          format_error_event (float_repr L) (u ''NETWORK_ERROR'')
            (PStr (u ''Network request failed'')))"

text \<open>
  The message of the branch \<open>status_code >= 400\<close> of \<open>_stream_chat\<close>, from the body read.
  The \<open>try\<close> around the parse catches \<open>ValueError\<close> only.
\<close>

definition stream_error_message :: "pylib \<Rightarrow> int \<Rightarrow> bytes \<Rightarrow> exc + pyval" where
  "stream_error_message L st raw =
     (let message = PStr (upstream_error_text st)
      in if raw = [] then Inr message
         else
           case (case decode_utf8 L raw of Inl m \<Rightarrow> NotJson m | Inr s \<Rightarrow> json_loads L s) of
             Parsed (PDict kvs) \<Rightarrow> extract_message kvs message
           | Parsed v \<Rightarrow> Inr message
           | TooDeep m \<Rightarrow> Inl (RecursionError m)
           | NotJson m \<Rightarrow>
               let t = py_strip (decode_utf8_ignore L raw)
               in if t \<noteq> [] then Inr (PStr t) else Inr message)"

text \<open>
  \<open>_stream_chat(payload, base_url)\<close>, run to its end. \<open>do_stream\<close> is the upstream: what
  opening the streamed POST gives. The result comes with the requests that were sent.
\<close>

definition stream_chat ::
  "pylib \<Rightarrow> (http_request \<Rightarrow> transport_failure + stream_response) \<Rightarrow> SupplierChatRequest
   \<Rightarrow> str \<Rightarrow> generated \<times> http_request list" where
  "stream_chat L do_stream payload b =
     (let req = chat_request payload b True
      in (case do_stream req of
            Inl f \<Rightarrow> emit [] (on_transport_failure L f)
          | Inr r \<Rightarrow>
              if stream_status r \<ge> 400 then
                (let code = map_error_code (stream_status r)
                 in case aread r of
                      Inl f \<Rightarrow> emit [] (on_transport_failure L f)
                    | Inr raw \<Rightarrow>
                        (case stream_error_message L (stream_status r) raw of
                           Inl e \<Rightarrow> \<lparr> yielded = [], raised = Some e \<rparr>
                         | Inr message \<Rightarrow>
                             emit [] (format_error_event (float_repr L) code message)))
              else
                (case ending r of
                   None \<Rightarrow>
                     \<lparr> yielded = filter (\<lambda>chunk. chunk \<noteq> []) (chunks r), raised = None \<rparr>
                 | Some f \<Rightarrow>
                     emit (filter (\<lambda>chunk. chunk \<noteq> []) (chunks r))
                       (on_transport_failure L f)),
          [req]))"

record JSONResponse =
  jr_status_code :: int
  jr_content :: pyval

text \<open>
  The message of the branch \<open>status_code >= 400\<close> of \<open>_request_chat\<close>. The \<open>try\<close>
  around the parse catches \<open>ValueError\<close> only.
\<close>

definition request_error_message :: "pylib \<Rightarrow> response \<Rightarrow> exc + pyval" where
  "request_error_message L r =
     (let message = PStr (upstream_error_text (status_code r));
          raw = resp_text r
      in if raw = [] then Inr message
         else
           case json_loads L raw of
             Parsed (PDict kvs) \<Rightarrow> extract_message kvs message
           | Parsed v \<Rightarrow> Inr message
           | TooDeep m \<Rightarrow> Inl (RecursionError m)
           | NotJson m \<Rightarrow>
               if py_strip raw \<noteq> [] then Inr (PStr (py_strip raw)) else Inr message)"

text \<open>
  \<open>_request_chat(payload, base_url)\<close>. \<open>do_post\<close> is the upstream: what the POST gives.
  The function has no \<open>try\<close> around the request.
\<close>

definition request_chat ::
  "pylib \<Rightarrow> (http_request \<Rightarrow> transport_failure + response) \<Rightarrow> SupplierChatRequest
   \<Rightarrow> str \<Rightarrow> (exc + JSONResponse) \<times> http_request list" where
  "request_chat L do_post payload b =
     (let req = chat_request payload b False
      in (case do_post req of
            Inl (TimeoutException m) \<Rightarrow> Inl (HttpxTimeoutException m)
          | Inl (RequestError m) \<Rightarrow> Inl (HttpxRequestError m)
          | Inr r \<Rightarrow>
              if status_code r \<ge> 400 then
                (let code = map_error_code (status_code r)
                 in case request_error_message L r of
                      Inl e \<Rightarrow> Inl e
                    | Inr message \<Rightarrow>
                        Inr \<lparr> jr_status_code = status_code r,
                              jr_content = PDict [(u ''error'',
                                PDict [(u ''message'', message), (u ''code'', PStr code)])] \<rparr>)
              else
                (case json r of
                   NotJson m \<Rightarrow>
                     Inr \<lparr> jr_status_code = status_code r,
                           jr_content = PDict [(u ''message'', PStr (resp_text r))] \<rparr>
                 | TooDeep m \<Rightarrow> Inl (RecursionError m)
                 | Parsed v \<Rightarrow> Inr \<lparr> jr_status_code = status_code r, jr_content = v \<rparr>),
          [req]))"

datatype proxy_response =
    StreamingResponse generated str "(str \<times> str) list"
  | JsonResponse JSONResponse

text \<open>
  \<open>proxy_chat(payload)\<close>, with the body of a streaming response consumed to its end.
\<close>

definition proxy_chat ::
  "pylib \<Rightarrow> (http_request \<Rightarrow> transport_failure + stream_response)
   \<Rightarrow> (http_request \<Rightarrow> transport_failure + response) \<Rightarrow> SupplierChatRequest
   \<Rightarrow> (exc + proxy_response) \<times> http_request list" where
  "proxy_chat L do_stream do_post payload =
     (if api_key payload = [] \<or> py_strip (api_key payload) = [] then
        (Inl (ValidationError (u ''API Key '' @ [0x4E0D, 0x80FD, 0x4E3A, 0x7A7A]) None), [])
      else
        case normalize_base_url L (base_url payload) of
          Inl e \<Rightarrow> (Inl e, [])
        | Inr normalized \<Rightarrow>
            if stream payload then
              (let (g, calls) = stream_chat L do_stream payload normalized
               in (Inr (StreamingResponse g (u ''text/event-stream'')
                          [(u ''Cache-Control'', u ''no-cache''),
                           (u ''Connection'', u ''keep-alive'')]),
                   calls))
            else
              (case request_chat L do_post payload normalized of
                 (Inl e, calls) \<Rightarrow> (Inl e, calls)
               | (Inr j, calls) \<Rightarrow> (Inr (JsonResponse j), calls)))"

section \<open>The specification's words\<close>

text \<open>
  An element of \<open>data\<close> that is an object with a non-empty \<open>id\<close> field: the field is
  there and its value is not empty (not \<open>None\<close>, \<open>False\<close>, zero, an empty string or an
  empty container). The entry of such an element carries that id, as text.
\<close>

definition has_nonempty_id :: "pyval \<Rightarrow> bool" where
  "has_nonempty_id item =
     (case item of
        PDict kvs \<Rightarrow> (case map_of kvs (u ''id'') of None \<Rightarrow> False | Some v \<Rightarrow> truthy v)
      | _ \<Rightarrow> False)"

definition entry_of :: "pylib \<Rightarrow> pyval \<Rightarrow> SupplierModel" where
  "entry_of L item =
     (case item of
        PDict kvs \<Rightarrow> (case map_of kvs (u ''id'') of
                        None \<Rightarrow> SupplierModel []
                      | Some v \<Rightarrow> SupplierModel (py_str L v))
      | _ \<Rightarrow> SupplierModel [])"

text \<open>
  The specified result for a parsed body: the entries of the elements of \<open>data\<close> with a
  non-empty id, in their order, when the body is an object whose \<open>data\<close> is an array;
  the empty list otherwise.
\<close>

definition listed_models :: "pylib \<Rightarrow> pyval \<Rightarrow> SupplierModel list" where
  "listed_models L body =
     (case body of
        PDict kvs \<Rightarrow> (case map_of kvs (u ''data'') of
                        Some (PList items) \<Rightarrow> map (entry_of L) (filter has_nonempty_id items)
                      | _ \<Rightarrow> [])
      | _ \<Rightarrow> [])"

text \<open>
  The error frame of the specification, written out octet by octet, for a kind and a
  message of ASCII characters none of which needs an escape:
  \<^verbatim>\<open>event: error\<close>, a line feed, \<^verbatim>\<open>data: {"code": "<kind>", "message": "<message>"}\<close>
  and two line feeds.
\<close>

definition sse_frame :: "string \<Rightarrow> string \<Rightarrow> bytes" where
  "sse_frame kind message =
     ''event: error'' @ [CHR 0x0A] @ ''data: {''
     @ [CHR 0x22] @ ''code'' @ [CHR 0x22] @ '': '' @ [CHR 0x22] @ kind @ [CHR 0x22] @ '', ''
     @ [CHR 0x22] @ ''message'' @ [CHR 0x22] @ '': '' @ [CHR 0x22] @ message @ [CHR 0x22]
     @ ''}'' @ [CHR 0x0A, CHR 0x0A]"

section \<open>Sample library\<close>

text \<open>
  A library instance for evaluating the relay on ASCII inputs: bytes decode to the code
  points of their octets, and the URL parser and the JSON parser are given by what they
  return on the inputs at hand.
\<close>

definition sample_lib ::
  "(str \<Rightarrow> str + parse_result) \<Rightarrow> (str \<Rightarrow> json_outcome) \<Rightarrow> pylib" where
  "sample_lib up jl =
     \<lparr> float_repr = (\<lambda>m e. u ''0.0''), other_str = (\<lambda>v. []), json_loads = jl,
       decode_utf8 = (\<lambda>raw. Inr (u raw)), decode_utf8_ignore = u, urlparse = up,
       nonascii_lower = (\<lambda>s. s) \<rparr>"

definition sample_payload :: "str \<Rightarrow> bool \<Rightarrow> SupplierChatRequest" where
  "sample_payload key flag =
     \<lparr> base_url = u ''http://x/'', api_key = key, model = u ''gpt-a'',
       messages = [PDict [(u ''role'', PStr (u ''user'')), (u ''content'', PStr (u ''hi''))]],
       stream = flag, temperature = None, tools = None, tool_choice = PNone \<rparr>"

text \<open>\<open>urlparse("http://x/")\<close>.\<close>

definition parse_http_x :: "str \<Rightarrow> str + parse_result" where
  "parse_http_x s = Inr \<lparr> scheme = u ''http'', netloc = u ''x'', hostname = Some (u ''x'') \<rparr>"

text \<open>\<open>urlparse("http://:80")\<close>: a network location with a port and no host.\<close>

definition parse_port_only :: "str \<Rightarrow> str + parse_result" where
  "parse_port_only s = Inr \<lparr> scheme = u ''http'', netloc = u '':80'', hostname = None \<rparr>"

text \<open>\<open>urlparse("http://[::1")\<close> raises \<open>ValueError("Invalid IPv6 URL")\<close>.\<close>

definition parse_raises :: "str \<Rightarrow> str + parse_result" where
  "parse_raises s = Inl (u ''Invalid IPv6 URL'')"

text \<open>Upstreams: one that answers every request with \<open>r\<close>, one whose transport fails.\<close>

definition replies :: "'r \<Rightarrow> http_request \<Rightarrow> transport_failure + 'r" where
  "replies r req = Inr r"

definition fails_with :: "transport_failure \<Rightarrow> http_request \<Rightarrow> transport_failure + 'r" where
  "fails_with f req = Inl f"

text \<open>
  JSON parsers: one that returns \<open>v\<close>, one that raises \<open>ValueError\<close> on every text.
\<close>

definition loads_as :: "pyval \<Rightarrow> str \<Rightarrow> json_outcome" where
  "loads_as v s = Parsed v"

definition no_json :: "str \<Rightarrow> json_outcome" where
  "no_json s = NotJson (u ''Expecting value'')"

section \<open>Facts about the built-ins\<close>

lemma u_eq_iff: "u a = u b \<longleftrightarrow> a = b"
proof -
  have "inj (of_char :: char \<Rightarrow> nat)" by (rule injI) simp
  then show ?thesis unfolding u_def by (rule inj_map_eq_map)
qed

lemma u_Nil_iff: "u s = [] \<longleftrightarrow> s = []"
  by (simp add: u_def)

lemma u_append: "u (a @ b) = u a @ u b"
  by (simp add: u_def)

lemma all_dropWhile_iff: "(\<forall>x\<in>set (dropWhile P xs). P x) \<longleftrightarrow> (\<forall>x\<in>set xs. P x)"
  by (induction xs) auto

lemma py_strip_empty_iff: "py_strip s = [] \<longleftrightarrow> (\<forall>c\<in>set s. py_isspace c)"
  by (simp add: py_strip_def py_rstrip_def all_dropWhile_iff)

lemma blank_iff: "(s = [] \<or> py_strip s = []) \<longleftrightarrow> (\<forall>c\<in>set s. py_isspace c)"
  using py_strip_empty_iff by auto


lemma str_int_500: "str_int 500 = u ''500''"
  by (simp add: str_int_def)

lemma str_int_503: "str_int 503 = u ''503''"
  by (simp add: str_int_def)


section \<open>Facts about the encoder and the error frame\<close>

text \<open>
  A text without surrogates is encoded code point by code point.
\<close>

lemma encode_from_plain:
  "\<forall>n\<in>set s. \<not> is_surrogate n \<Longrightarrow> encode_from i s = Inr (concat (map utf8_char s))"
  by (induction s arbitrary: i) simp_all

lemma encode_utf8_plain:
  "\<forall>n\<in>set s. \<not> is_surrogate n \<Longrightarrow> encode_utf8 s = Inr (concat (map utf8_char s))"
  by (simp add: encode_utf8_def encode_from_plain)

text \<open>
  The encoder stops at the first surrogate, with its position.
\<close>

lemma encode_from_surrogate:
  assumes "\<forall>n\<in>set p. \<not> is_surrogate n" and "is_surrogate x"
  shows "encode_from i (p @ x # rest) = Inl (UnicodeEncodeError x (i + length p))"
  using assms by (induction p arbitrary: i) simp_all

text \<open>
  An ASCII literal is encoded as itself, and holds no surrogate.
\<close>

lemma encode_ascii:
  assumes "\<forall>c\<in>set s. (of_char c :: nat) < 128"
  shows "concat (map utf8_char (u s)) = s" and "\<forall>n\<in>set (u s). \<not> is_surrogate n"
  using assms by (induction s) (simp_all add: u_def utf8_char_def is_surrogate_def)

lemma encode_utf8_ascii:
  assumes "\<forall>c\<in>set s. (of_char c :: nat) < 128"
  shows "encode_utf8 (u s) = Inr s"
  using encode_utf8_plain [OF encode_ascii(2) [OF assms]] encode_ascii(1) [OF assms] by simp

lemma u_not_surrogate: "\<forall>n\<in>set (u s). \<not> is_surrogate n"
proof
  fix n assume "n \<in> set (u s)"
  then obtain c :: char where n: "n = of_char c" by (auto simp: u_def)
  have "(of_char c :: nat) < 256"
    using mod_less_divisor [of 256 "of_char c"] by (simp only: of_char_mod_256)
  then have "n < 55296" unfolding n by linarith
  then show "\<not> is_surrogate n" by (simp add: is_surrogate_def)
qed

text \<open>
  The escape table leaves printable ASCII but quote and backslash unchanged; it turns
  no code point into a surrogate, and what it returns holds no line feed and no carriage
  return.
\<close>

lemma escape_char_plain: "32 \<le> n \<Longrightarrow> n \<noteq> 34 \<Longrightarrow> n \<noteq> 92 \<Longrightarrow> escape_char n = [n]"
  by (simp add: escape_char_def)

lemma escape_plain_text:
  assumes "\<forall>c\<in>set s. 32 \<le> (of_char c :: nat) \<and> c \<noteq> CHR 0x22 \<and> c \<noteq> CHR 0x5C"
  shows "concat (map escape_char (u s)) = u s"
  using assms
proof (induction s)
  case Nil
  show ?case by (simp add: u_def)
next
  case (Cons c s)
  have a: "(of_char c :: nat) \<noteq> 34"
  proof
    assume "(of_char c :: nat) = 34"
    moreover have "(of_char (CHR 0x22) :: nat) = 34" by simp
    ultimately have "(of_char c :: nat) = of_char (CHR 0x22)" by simp
    then have "c = CHR 0x22" by (simp only: of_char_eq_iff)
    with Cons.prems show False by simp
  qed
  have b: "(of_char c :: nat) \<noteq> 92"
  proof
    assume "(of_char c :: nat) = 92"
    moreover have "(of_char (CHR 0x5C) :: nat) = 92" by simp
    ultimately have "(of_char c :: nat) = of_char (CHR 0x5C)" by simp
    then have "c = CHR 0x5C" by (simp only: of_char_eq_iff)
    with Cons.prems show False by simp
  qed
  from Cons.prems have c: "32 \<le> (of_char c :: nat)" by simp
  have "escape_char (of_char c) = [of_char c]" using a b c by (rule_tac escape_char_plain)
  moreover have "concat (map escape_char (u s)) = u s" using Cons by simp
  ultimately show ?case by (simp add: u_def)
qed

lemma escape_char_not_surrogate:
  assumes "\<not> is_surrogate n"
  shows "\<forall>k\<in>set (escape_char n). \<not> is_surrogate k"
proof (cases "escape_char n = [n]")
  case True
  with assms show ?thesis by simp
next
  case False
  then obtain s where "escape_char n = u s"
    by (auto simp: escape_char_def split: if_splits)
  then show ?thesis by (simp add: u_not_surrogate)
qed

lemma escaped_not_surrogate:
  assumes "\<forall>n\<in>set s. \<not> is_surrogate n"
  shows "\<forall>k\<in>set (concat (map escape_char s)). \<not> is_surrogate k"
  using assms escape_char_not_surrogate by auto

lemma hex_digit_not_newline:
  assumes "d < 16"
  shows "(of_char (hex_digit d) :: nat) \<noteq> 10 \<and> (of_char (hex_digit d) :: nat) \<noteq> 13"
proof -
  have "hex_digit d \<in> set ''0123456789abcdef''"
    unfolding hex_digit_def using assms by (intro nth_mem) simp
  moreover have "\<forall>c\<in>set ''0123456789abcdef''. (of_char c :: nat) \<noteq> 10 \<and> (of_char c :: nat) \<noteq> 13"
    by simp
  ultimately show ?thesis by blast
qed

lemma escape_char_no_newline: "10 \<notin> set (escape_char n) \<and> 13 \<notin> set (escape_char n)"
proof -
  have lo: "(of_char (hex_digit (n mod 16)) :: nat) \<noteq> 10
            \<and> (of_char (hex_digit (n mod 16)) :: nat) \<noteq> 13"
    by (rule hex_digit_not_newline) simp
  have hi: "n < 32 \<Longrightarrow> (of_char (hex_digit (n div 16)) :: nat) \<noteq> 10
            \<and> (of_char (hex_digit (n div 16)) :: nat) \<noteq> 13"
    by (rule hex_digit_not_newline) simp
  have lo': "10 \<noteq> (of_char (hex_digit (n mod 16)) :: nat)
            \<and> 13 \<noteq> (of_char (hex_digit (n mod 16)) :: nat)"
    using lo by metis
  have hi': "n < 32 \<Longrightarrow> 10 \<noteq> (of_char (hex_digit (n div 16)) :: nat)
            \<and> 13 \<noteq> (of_char (hex_digit (n div 16)) :: nat)"
    using hi by metis
  show ?thesis
    using lo' hi' by (simp add: escape_char_def u_def)
qed

lemma escaped_no_newline:
  "10 \<notin> set (concat (map escape_char s)) \<and> 13 \<notin> set (concat (map escape_char s))"
  using escape_char_no_newline by simp

text \<open>
  For a kind and a message of printable ASCII without quote or backslash, the event is
  the frame written out octet by octet.
\<close>

lemma frame_text:
  assumes "concat (map escape_char (u kind)) = u kind"
    and "concat (map escape_char (u message)) = u message"
  shows "u ''event: error'' @ u [CHR 0x0A] @ u ''data: ''
           @ json_dumps frepr (PDict [(u ''code'', PStr (u kind)), (u ''message'', PStr (u message))])
           @ u [CHR 0x0A, CHR 0x0A]
         = u (sse_frame kind message)"
proof -
  have c: "concat (map escape_char (u ''code'')) = u ''code''"
    by (rule escape_plain_text) simp
  have m: "concat (map escape_char (u ''message'')) = u ''message''"
    by (rule escape_plain_text) simp
  have "json_dumps frepr (PDict [(u ''code'', PStr (u kind)), (u ''message'', PStr (u message))])
          = u ''{'' @ u [CHR 0x22] @ u ''code'' @ u [CHR 0x22] @ u '': ''
            @ u [CHR 0x22] @ u kind @ u [CHR 0x22] @ u '', ''
            @ u [CHR 0x22] @ u ''message'' @ u [CHR 0x22] @ u '': ''
            @ u [CHR 0x22] @ u message @ u [CHR 0x22] @ u ''}''"
    by (simp add: encode_basestring_def c m assms)
  then show ?thesis
    by (simp add: sse_frame_def u_def)
qed

lemma frame_plain:
  assumes k: "\<forall>c\<in>set kind. 32 \<le> (of_char c :: nat) \<and> (of_char c :: nat) < 128
                \<and> c \<noteq> CHR 0x22 \<and> c \<noteq> CHR 0x5C"
    and m: "\<forall>c\<in>set message. 32 \<le> (of_char c :: nat) \<and> (of_char c :: nat) < 128
                \<and> c \<noteq> CHR 0x22 \<and> c \<noteq> CHR 0x5C"
  shows "format_error_event frepr (u kind) (PStr (u message)) = Inr (sse_frame kind message)"
proof -
  have ek: "concat (map escape_char (u kind)) = u kind"
    using k by (intro escape_plain_text) simp
  have em: "concat (map escape_char (u message)) = u message"
    using m by (intro escape_plain_text) simp
  have asc: "\<forall>c\<in>set (sse_frame kind message). (of_char c :: nat) < 128"
    using k m by (auto simp: sse_frame_def)
  have "format_error_event frepr (u kind) (PStr (u message)) = encode_utf8 (u (sse_frame kind message))"
    unfolding format_error_event_def Let_def by (simp only: frame_text [OF ek em])
  then show ?thesis by (simp add: encode_utf8_ascii [OF asc])
qed

lemma timeout_event:
  "format_error_event frepr (u ''TIMEOUT'') (PStr (u ''Request timed out''))
     = Inr (sse_frame ''TIMEOUT'' ''Request timed out'')"
  by (rule frame_plain) simp_all

lemma network_event:
  "format_error_event frepr (u ''NETWORK_ERROR'') (PStr (u ''Network request failed''))
     = Inr (sse_frame ''NETWORK_ERROR'' ''Network request failed'')"
  by (rule frame_plain) simp_all


lemma on_transport_failure_frame:
  "on_transport_failure L f =
     Inr (case f of
            TimeoutException m \<Rightarrow> sse_frame ''TIMEOUT'' ''Request timed out''
          | RequestError m \<Rightarrow> sse_frame ''NETWORK_ERROR'' ''Network request failed'')"
  by (cases f) (simp_all add: on_transport_failure_def timeout_event network_event)

lemma sse_frame_nonempty: "sse_frame kind message \<noteq> []"
  by (simp add: sse_frame_def)

text \<open>
  Code points of one, two, three and four octets.
\<close>

lemma utf8_samples:
  "utf8_char 0x41 = [CHR 0x41]"
  "utf8_char 0xE9 = [CHR 0xC3, CHR 0xA9]"
  "utf8_char 0x4E2D = [CHR 0xE4, CHR 0xB8, CHR 0xAD]"
  "utf8_char 0x1F600 = [CHR 0xF0, CHR 0x9F, CHR 0x98, CHR 0x80]"
  "utf8_char 0x22 = [CHR 0x22]"
  "utf8_char 0x5C = [CHR 0x5C]"
  "utf8_char 0x6E = [CHR 0x6E]"
  "utf8_char 0x45 = [CHR 0x45]"
  by (simp_all add: utf8_char_def char_of_def bit_Suc_0_iff)

text \<open>
  The event for the kind \<open>UPSTREAM_ERROR\<close> and a message that is one lone surrogate:
  the encoder raises at position 58, the position of the surrogate in the text.
\<close>

lemma surrogate_event:
  "format_error_event frepr (u ''UPSTREAM_ERROR'') (PStr [0xD800])
     = Inl (UnicodeEncodeError 0xD800 58)"
proof -
  let ?p = "''event: error'' @ [CHR 0x0A] @ ''data: {'' @ [CHR 0x22] @ ''code'' @ [CHR 0x22]
            @ '': '' @ [CHR 0x22] @ ''UPSTREAM_ERROR'' @ [CHR 0x22] @ '', ''
            @ [CHR 0x22] @ ''message'' @ [CHR 0x22] @ '': '' @ [CHR 0x22]"
  let ?rest = "u ([CHR 0x22] @ ''}'' @ [CHR 0x0A, CHR 0x0A])"
  have c: "concat (map escape_char (u ''code'')) = u ''code''"
    by (rule escape_plain_text) simp
  have m: "concat (map escape_char (u ''message'')) = u ''message''"
    by (rule escape_plain_text) simp
  have k: "concat (map escape_char (u ''UPSTREAM_ERROR'')) = u ''UPSTREAM_ERROR''"
    by (rule escape_plain_text) simp
  have e: "escape_char 0xD800 = [0xD800]" by (simp add: escape_char_def)
  have j: "json_dumps frepr (PDict [(u ''code'', PStr (u ''UPSTREAM_ERROR'')),
                                     (u ''message'', PStr [0xD800])])
          = u ''{'' @ u [CHR 0x22] @ u ''code'' @ u [CHR 0x22] @ u '': ''
            @ u [CHR 0x22] @ u ''UPSTREAM_ERROR'' @ u [CHR 0x22] @ u '', ''
            @ u [CHR 0x22] @ u ''message'' @ u [CHR 0x22] @ u '': ''
            @ u [CHR 0x22] @ [0xD800] @ u [CHR 0x22] @ u ''}''"
    by (simp add: encode_basestring_def c m k e)
  have t: "u ''event: error'' @ u [CHR 0x0A] @ u ''data: ''
             @ json_dumps frepr (PDict [(u ''code'', PStr (u ''UPSTREAM_ERROR'')),
                                        (u ''message'', PStr [0xD800])])
             @ u [CHR 0x0A, CHR 0x0A]
           = u ?p @ 0xD800 # ?rest"
    unfolding j by (simp add: u_def)
  have s: "is_surrogate 0xD800" by (simp add: is_surrogate_def)
  have l: "length (u ?p) = 58" by (simp add: u_def)
  have "format_error_event frepr (u ''UPSTREAM_ERROR'') (PStr [0xD800])
          = encode_from 0 (u ?p @ 0xD800 # ?rest)"
    unfolding format_error_event_def Let_def encode_utf8_def
    by (simp only: t)
  also have "\<dots> = Inl (UnicodeEncodeError 0xD800 (0 + length (u ?p)))"
    using u_not_surrogate s by (rule encode_from_surrogate)
  finally show ?thesis by (simp only: l) simp
qed

section \<open>Status translation on the two chat paths\<close>




section \<open>Blank credentials\<close>

text \<open>
  Claim C4. When the credential is empty or holds only whitespace, \<open>proxy_chat\<close> (with
  \<open>stream\<close> true or false) and \<open>fetch_models\<close> raise \<open>ValidationError\<close>, whose error code
  is \<open>VALIDATION_ERROR\<close>, and no request has been sent, whatever the upstream would do.
\<close>

theorem C4_blank_credential_no_network_call:
  assumes "\<forall>c\<in>set key. py_isspace c"
  shows "proxy_chat L do_stream do_post
           ((payload :: SupplierChatRequest)\<lparr>api_key := key, stream := flag\<rparr>)
           = (Inl (ValidationError (u ''API Key '' @ [0x4E0D, 0x80FD, 0x4E3A, 0x7A7A]) None), [])
       \<and> fetch_models L do_get b key
           = (Inl (ValidationError (u ''API Key '' @ [0x4E0D, 0x80FD, 0x4E3A, 0x7A7A]) None), [])
       \<and> error_code (ValidationError (u ''API Key '' @ [0x4E0D, 0x80FD, 0x4E3A, 0x7A7A]) None)
           = Some VALIDATION_ERROR"
proof -
  from assms have "key = [] \<or> py_strip key = []" by (simp add: blank_iff)
  then show ?thesis by (auto simp: proxy_chat_def fetch_models_def)
qed

theorem C4_witness:
  "py_isspace 0x20 \<and> py_isspace 0x09 \<and> py_isspace 0x3000
   \<and> proxy_chat (sample_lib parse_http_x no_json) (fails_with (TimeoutException []))
        (fails_with (TimeoutException [])) (sample_payload [0x20, 0x09, 0x3000] True)
       = (Inl (ValidationError (u ''API Key '' @ [0x4E0D, 0x80FD, 0x4E3A, 0x7A7A]) None), [])
   \<and> fetch_models (sample_lib parse_http_x no_json) (fails_with (TimeoutException []))
        (u ''http://x/'') [0x20, 0x09, 0x3000]
       = (Inl (ValidationError (u ''API Key '' @ [0x4E0D, 0x80FD, 0x4E3A, 0x7A7A]) None), [])"
proof -
  have h: "\<forall>c\<in>set [0x20, 0x09, 0x3000]. py_isspace c" by (simp add: py_isspace_def)
  have p: "sample_payload [0x20, 0x09, 0x3000] True
           = (sample_payload [] False)\<lparr>api_key := [0x20, 0x09, 0x3000], stream := True\<rparr>"
    by (simp add: sample_payload_def)
  show ?thesis
    using h C4_blank_credential_no_network_call [OF h,
        where L = "sample_lib parse_http_x no_json"
          and do_stream = "fails_with (TimeoutException [])"
          and do_post = "fails_with (TimeoutException [])"
          and payload = "sample_payload [] False" and flag = True
          and do_get = "fails_with (TimeoutException [])" and b = "u ''http://x/''"]
    by (simp add: p)
qed

section \<open>The SSE error frame\<close>

text \<open>
  Claim C9, at an input where the code departs from it. The message is the string of
  one lone surrogate U+D800, which \<open>json.loads\<close> returns for the JSON text
  \<^verbatim>\<open>"\ud800"\<close>. \<open>json.dumps(..., ensure_ascii=False)\<close> leaves the surrogate in the payload
  and \<open>.encode("utf-8")\<close> raises \<open>UnicodeEncodeError\<close> at position 58: \<open>_format_error_event\<close>
  returns no frame. The input is reached from the network: when the upstream answers the
  streamed request with status 500 and the body \<^verbatim>\<open>{"message": "\ud800"}\<close>, \<open>_stream_chat\<close>
  yields nothing and raises that error, which none of its \<open>except\<close> clauses catches.
\<close>

theorem C9_lone_surrogate_raises:
  "format_error_event frepr (u ''UPSTREAM_ERROR'') (PStr [0xD800])
     = Inl (UnicodeEncodeError 0xD800 58)
   \<and> error_code (UnicodeEncodeError 0xD800 58) = None
   \<and> stream_chat (sample_lib parse_http_x (loads_as (PDict [(u ''message'', PStr [0xD800])])))
       (replies \<lparr> stream_status = 500,
                  chunks = [''{'' @ [CHR 0x22] @ ''message'' @ [CHR 0x22] @ '': '' @ [CHR 0x22]
                            @ [CHR 0x5C] @ ''ud800'' @ [CHR 0x22] @ ''}''],
                  ending = None \<rparr>)
       (sample_payload (u ''k'') True) (u ''http://x'')
     = (\<lparr> yielded = [], raised = Some (UnicodeEncodeError 0xD800 58) \<rparr>,
        [chat_request (sample_payload (u ''k'') True) (u ''http://x'') True])"
proof -
  have g: "stream_error_message
             (sample_lib parse_http_x (loads_as (PDict [(u ''message'', PStr [0xD800])]))) 500
             (''{'' @ [CHR 0x22] @ ''message'' @ [CHR 0x22] @ '': '' @ [CHR 0x22]
                @ [CHR 0x5C] @ ''ud800'' @ [CHR 0x22] @ ''}'')
           = Inr (PStr [0xD800])"
    by (simp add: stream_error_message_def sample_lib_def loads_as_def extract_message_def
        dict_get_def Let_def u_eq_iff)
  have "stream_chat (sample_lib parse_http_x (loads_as (PDict [(u ''message'', PStr [0xD800])])))
       (replies \<lparr> stream_status = 500,
                  chunks = [''{'' @ [CHR 0x22] @ ''message'' @ [CHR 0x22] @ '': '' @ [CHR 0x22]
                            @ [CHR 0x5C] @ ''ud800'' @ [CHR 0x22] @ ''}''],
                  ending = None \<rparr>)
       (sample_payload (u ''k'') True) (u ''http://x'')
     = (emit [] (Inl (UnicodeEncodeError 0xD800 58)),
        [chat_request (sample_payload (u ''k'') True) (u ''http://x'') True])"
    using g
    by (simp add: stream_chat_def replies_def aread_def map_error_code_def Let_def
        surrogate_event)
  then show ?thesis by (simp add: emit_def surrogate_event)
qed

text \<open>
  What \<open>_format_error_event\<close> returns for every kind and every message string that hold
  no surrogate: the octets of \<^verbatim>\<open>event: error\<close>, a line feed, \<^verbatim>\<open>data: \<close> followed by the JSON
  object with the key \<open>code\<close> holding the UTF-8 encoding of the escaped kind and the key
  \<open>message\<close> holding the UTF-8 encoding of the escaped message, and two line feeds. The
  escaped texts hold no line feed and no carriage return, so the frame is one event
  closed by a blank line.
\<close>

theorem format_error_event_frame:
  assumes "\<forall>n\<in>set kind. \<not> is_surrogate n" and "\<forall>n\<in>set message. \<not> is_surrogate n"
  shows "format_error_event frepr kind (PStr message) =
     Inr (''event: error'' @ [CHR 0x0A] @ ''data: {''
          @ [CHR 0x22] @ ''code'' @ [CHR 0x22] @ '': ''
          @ [CHR 0x22] @ concat (map utf8_char (concat (map escape_char kind))) @ [CHR 0x22]
          @ '', '' @ [CHR 0x22] @ ''message'' @ [CHR 0x22] @ '': ''
          @ [CHR 0x22] @ concat (map utf8_char (concat (map escape_char message))) @ [CHR 0x22]
          @ ''}'' @ [CHR 0x0A, CHR 0x0A])
   \<and> 10 \<notin> set (concat (map escape_char kind)) \<and> 13 \<notin> set (concat (map escape_char kind))
   \<and> 10 \<notin> set (concat (map escape_char message))
   \<and> 13 \<notin> set (concat (map escape_char message))"
proof -
  let ?k = "concat (map escape_char kind)"
  let ?m = "concat (map escape_char message)"
  let ?a = "''event: error'' @ [CHR 0x0A] @ ''data: {'' @ [CHR 0x22] @ ''code'' @ [CHR 0x22]
            @ '': '' @ [CHR 0x22]"
  let ?b = "[CHR 0x22] @ '', '' @ [CHR 0x22] @ ''message'' @ [CHR 0x22] @ '': '' @ [CHR 0x22]"
  let ?c = "[CHR 0x22] @ ''}'' @ [CHR 0x0A, CHR 0x0A]"
  have c: "concat (map escape_char (u ''code'')) = u ''code''"
    by (rule escape_plain_text) simp
  have m: "concat (map escape_char (u ''message'')) = u ''message''"
    by (rule escape_plain_text) simp
  have d: "json_dumps frepr (PDict [(u ''code'', PStr kind), (u ''message'', PStr message)])
          = u ''{'' @ u [CHR 0x22] @ u ''code'' @ u [CHR 0x22] @ u '': ''
            @ u [CHR 0x22] @ ?k @ u [CHR 0x22] @ u '', ''
            @ u [CHR 0x22] @ u ''message'' @ u [CHR 0x22] @ u '': ''
            @ u [CHR 0x22] @ ?m @ u [CHR 0x22] @ u ''}''"
    by (simp add: encode_basestring_def c m)
  have j: "u ''event: error'' @ u [CHR 0x0A] @ u ''data: ''
             @ json_dumps frepr (PDict [(u ''code'', PStr kind), (u ''message'', PStr message)])
             @ u [CHR 0x0A, CHR 0x0A]
           = u ?a @ ?k @ u ?b @ ?m @ u ?c"
    unfolding d by (simp add: u_def)
  have ns: "\<forall>n\<in>set (u ?a @ ?k @ u ?b @ ?m @ u ?c). \<not> is_surrogate n"
    using escaped_not_surrogate [OF assms(1)] escaped_not_surrogate [OF assms(2)]
      u_not_surrogate [of ?a] u_not_surrogate [of ?b] u_not_surrogate [of ?c]
    by (simp only: set_append ball_Un)
  have ea: "concat (map utf8_char (u ?a)) = ?a" by (rule encode_ascii(1)) simp
  have eb: "concat (map utf8_char (u ?b)) = ?b" by (rule encode_ascii(1)) simp
  have ec: "concat (map utf8_char (u ?c)) = ?c" by (rule encode_ascii(1)) simp
  have "format_error_event frepr kind (PStr message) = encode_utf8 (u ?a @ ?k @ u ?b @ ?m @ u ?c)"
    unfolding format_error_event_def Let_def by (simp only: j)
  also have "\<dots> = Inr (concat (map utf8_char (u ?a @ ?k @ u ?b @ ?m @ u ?c)))"
    using ns by (rule encode_utf8_plain)
  also have "concat (map utf8_char (u ?a @ ?k @ u ?b @ ?m @ u ?c))
             = ?a @ concat (map utf8_char ?k) @ ?b @ concat (map utf8_char ?m) @ ?c"
    by (simp only: map_append concat_append ea eb ec)
  finally have "format_error_event frepr kind (PStr message)
      = Inr (?a @ concat (map utf8_char ?k) @ ?b @ concat (map utf8_char ?m) @ ?c)" .
  then show ?thesis
    using escaped_no_newline [of kind] escaped_no_newline [of message] by simp
qed

theorem format_error_event_frame_witness:
  "\<not> is_surrogate 0x45 \<and> \<not> is_surrogate 0xE9 \<and> \<not> is_surrogate 0x4E2D \<and> \<not> is_surrogate 0x1F600
   \<and> \<not> is_surrogate 0x22 \<and> \<not> is_surrogate 0x0A
   \<and> format_error_event (\<lambda>m e. []) [0x45] (PStr [0xE9, 0x4E2D, 0x1F600, 0x22, 0x0A])
     = Inr (''event: error'' @ [CHR 0x0A] @ ''data: {''
          @ [CHR 0x22] @ ''code'' @ [CHR 0x22] @ '': '' @ [CHR 0x22] @ ''E'' @ [CHR 0x22]
          @ '', '' @ [CHR 0x22] @ ''message'' @ [CHR 0x22] @ '': ''
          @ [CHR 0x22] @ [CHR 0xC3, CHR 0xA9, CHR 0xE4, CHR 0xB8, CHR 0xAD,
                          CHR 0xF0, CHR 0x9F, CHR 0x98, CHR 0x80,
                          CHR 0x5C, CHR 0x22, CHR 0x5C, CHR ''n''] @ [CHR 0x22]
          @ ''}'' @ [CHR 0x0A, CHR 0x0A])"
proof -
  have h: "\<forall>n\<in>set [0x45]. \<not> is_surrogate n"
    "\<forall>n\<in>set [0xE9, 0x4E2D, 0x1F600, 0x22, 0x0A]. \<not> is_surrogate n"
    by (simp_all add: is_surrogate_def)
  have e: "escape_char 0x45 = [0x45]" "escape_char 0xE9 = [0xE9]" "escape_char 0x4E2D = [0x4E2D]"
    "escape_char 0x1F600 = [0x1F600]" "escape_char 0x22 = [0x5C, 0x22]"
    "escape_char 0x0A = [0x5C, 0x6E]"
    by (simp_all add: escape_char_def u_def)
  show ?thesis
    using h format_error_event_frame [OF h, where frepr = "\<lambda>m e. []"]
    by (simp add: e utf8_samples)
qed

section \<open>Relaying a successful stream\<close>

lemma concat_filter_nonempty: "concat (filter (\<lambda>c. c \<noteq> []) xs) = concat xs"
  by (induction xs) auto

lemma stream_chat_success:
  assumes "do_stream (chat_request payload b True) = Inr r"
    and "stream_status r < 400"
  shows "fst (stream_chat L do_stream payload b)
           = \<lparr> yielded = filter (\<lambda>chunk. chunk \<noteq> []) (chunks r)
                 @ (case ending r of
                      None \<Rightarrow> []
                    | Some (TimeoutException m) \<Rightarrow> [sse_frame ''TIMEOUT'' ''Request timed out'']
                    | Some (RequestError m) \<Rightarrow>
                        [sse_frame ''NETWORK_ERROR'' ''Network request failed'']),
               raised = None \<rparr>"
proof (cases "ending r")
  case None
  with assms show ?thesis by (simp add: stream_chat_def Let_def)
next
  case (Some f)
  with assms show ?thesis
    by (cases f) (simp_all add: stream_chat_def Let_def on_transport_failure_frame emit_def)
qed

text \<open>
  Claim C10. When the streamed upstream answer has a status below 400, \<open>_stream_chat\<close>
  yields the chunks received that are not empty, in their order, followed by one error
  event (\<open>TIMEOUT\<close> or \<open>NETWORK_ERROR\<close>) if the transport fails after them; every chunk yielded is non-empty; dropping
  the empty chunks does not change the concatenation of the bytes received, so when
  upstream closes the stream the bytes yielded are exactly the bytes received; and the
  generator raises nothing.
\<close>

theorem C10_relay_drops_empty_chunks:
  assumes "do_stream (chat_request payload b True) = Inr r"
    and "stream_status r < 400"
  shows "yielded (fst (stream_chat L do_stream payload b))
           = filter (\<lambda>chunk. chunk \<noteq> []) (chunks r)
             @ (case ending r of
                  None \<Rightarrow> []
                | Some (TimeoutException m) \<Rightarrow> [sse_frame ''TIMEOUT'' ''Request timed out'']
                | Some (RequestError m) \<Rightarrow>
                    [sse_frame ''NETWORK_ERROR'' ''Network request failed''])
       \<and> (\<forall>chunk\<in>set (yielded (fst (stream_chat L do_stream payload b))). chunk \<noteq> [])
       \<and> concat (filter (\<lambda>chunk. chunk \<noteq> []) (chunks r)) = concat (chunks r)
       \<and> (ending r = None \<longrightarrow>
            concat (yielded (fst (stream_chat L do_stream payload b))) = concat (chunks r))
       \<and> raised (fst (stream_chat L do_stream payload b)) = None"
proof -
  let ?g = "fst (stream_chat L do_stream payload b)"
  let ?tail = "case ending r of
                 None \<Rightarrow> []
               | Some (TimeoutException m) \<Rightarrow> [sse_frame ''TIMEOUT'' ''Request timed out'']
               | Some (RequestError m) \<Rightarrow>
                   [sse_frame ''NETWORK_ERROR'' ''Network request failed'']"
  have g: "?g = \<lparr> yielded = filter (\<lambda>chunk. chunk \<noteq> []) (chunks r) @ ?tail, raised = None \<rparr>"
    using assms by (rule stream_chat_success)
  have y: "yielded ?g = filter (\<lambda>chunk. chunk \<noteq> []) (chunks r) @ ?tail"
    by (simp only: g generated.select_convs)
  have r: "raised ?g = None"
    by (simp only: g generated.select_convs)
  have t: "\<forall>chunk\<in>set ?tail. chunk \<noteq> []"
  proof (cases "ending r")
    case None
    then show ?thesis by simp
  next
    case (Some f)
    then show ?thesis by (cases f) (simp_all add: sse_frame_nonempty)
  qed
  have n: "\<forall>chunk\<in>set (yielded ?g). chunk \<noteq> []"
    using t by (simp only: y set_append) auto
  have c: "ending r = None \<longrightarrow> concat (yielded ?g) = concat (chunks r)"
    by (simp only: y) (simp add: concat_filter_nonempty)
  show ?thesis
    using y r n c concat_filter_nonempty [of "chunks r"] by blast
qed

theorem C10_witness:
  "replies \<lparr> stream_status = 200, chunks = [''data: a'', [], ''data: b''], ending = None \<rparr>
       (chat_request (sample_payload (u ''k'') True) (u ''http://x'') True)
     = Inr \<lparr> stream_status = 200, chunks = [''data: a'', [], ''data: b''], ending = None \<rparr>
   \<and> stream_status \<lparr> stream_status = 200, chunks = [''data: a'', [], ''data: b''],
                      ending = None \<rparr> < 400
   \<and> yielded (fst (stream_chat (sample_lib parse_http_x no_json)
        (replies \<lparr> stream_status = 200, chunks = [''data: a'', [], ''data: b''], ending = None \<rparr>)
        (sample_payload (u ''k'') True) (u ''http://x'')))
       = [''data: a'', ''data: b'']
   \<and> raised (fst (stream_chat (sample_lib parse_http_x no_json)
        (replies \<lparr> stream_status = 200, chunks = [''data: a'', [], ''data: b''], ending = None \<rparr>)
        (sample_payload (u ''k'') True) (u ''http://x'')))
       = None"
proof -
  let ?r = "\<lparr> stream_status = 200, chunks = [''data: a'', [], ''data: b''], ending = None \<rparr>"
  have h1: "replies ?r (chat_request (sample_payload (u ''k'') True) (u ''http://x'') True) = Inr ?r"
    by (simp add: replies_def)
  have h2: "stream_status ?r < 400" by simp
  show ?thesis
    using h1 h2
      C10_relay_drops_empty_chunks [where do_stream = "replies ?r" and r = ?r
        and payload = "sample_payload (u ''k'') True" and b = "u ''http://x''"
        and L = "sample_lib parse_http_x no_json"]
    by simp
qed

section \<open>Failures that escape the relay\<close>

text \<open>
  Claim C1, at the inputs where the code departs from it. \<open>_request_chat\<close> has no
  \<open>try\<close> around the POST: a transport timeout or any other transport failure leaves it
  as the \<open>httpx\<close> exception, after the one request was sent. An error body that is a JSON
  object whose \<open>error\<close> member is a string leaves it as an \<open>AttributeError\<close>.
\<close>

theorem C1_buffered_chat_raises:
  "request_chat L (fails_with (TimeoutException m)) payload b
     = (Inl (HttpxTimeoutException m), [chat_request payload b False])
   \<and> request_chat L (fails_with (RequestError m)) payload b
     = (Inl (HttpxRequestError m), [chat_request payload b False])
   \<and> request_chat (sample_lib up (loads_as (PDict [(u ''error'', PStr (u ''boom''))])))
        (replies \<lparr> status_code = 500, resp_text = u ''{...}'',
                   json = Parsed (PDict [(u ''error'', PStr (u ''boom''))]) \<rparr>)
        payload b
     = (Inl (AttributeError (u ([CHR 0x27] @ ''str'' @ [CHR 0x27] @ '' object has no attribute ''
               @ [CHR 0x27] @ ''get'' @ [CHR 0x27]))),
        [chat_request payload b False])"
  by (simp add: request_chat_def fails_with_def replies_def request_error_message_def
      sample_lib_def loads_as_def extract_message_def dict_get_def Let_def u_Nil_iff)

text \<open>
  Claim C6, at an input where the code departs from it. The upstream answers the
  streamed request with status 500 and a body that parses to a JSON object whose
  \<open>error\<close> member is a string: \<open>_stream_chat\<close> yields nothing and raises
  \<open>AttributeError\<close>, which neither \<open>except\<close> clause catches.
\<close>

theorem C6_stream_error_body_raises:
  "stream_chat (sample_lib parse_http_x (loads_as (PDict [(u ''error'', PStr (u ''boom''))])))
     (replies \<lparr> stream_status = 500, chunks = [''{...}''], ending = None \<rparr>)
     (sample_payload (u ''k'') True) (u ''http://x'')
   = (\<lparr> yielded = [],
        raised = Some (AttributeError (u ([CHR 0x27] @ ''str'' @ [CHR 0x27]
                   @ '' object has no attribute '' @ [CHR 0x27] @ ''get'' @ [CHR 0x27]))) \<rparr>,
      [chat_request (sample_payload (u ''k'') True) (u ''http://x'') True])"
  by (simp add: stream_chat_def replies_def aread_def stream_error_message_def
      sample_lib_def loads_as_def extract_message_def dict_get_def Let_def)

section \<open>The outgoing chat body\<close>

lemma chat_request_body: "json_body (chat_request payload b flag) = Some (chat_body payload flag)"
  by (simp add: chat_request_def)

lemma request_chat_calls: "snd (request_chat L do_post payload b) = [chat_request payload b False]"
  by (simp add: request_chat_def Let_def)

lemma stream_chat_calls: "snd (stream_chat L do_stream payload b) = [chat_request payload b True]"
  by (simp add: stream_chat_def Let_def)

lemma chat_body_keys:
  "map fst (chat_body payload flag)
     = [u ''model'', u ''messages'', u ''stream'']
       @ (if temperature payload = None then [] else [u ''temperature''])
       @ (if tools payload = None then [] else [u ''tools''])
       @ (if tool_choice payload = PNone then [] else [u ''tool_choice''])"
  by (cases "temperature payload"; cases "tools payload"; cases "tool_choice payload = PNone")
     (simp_all add: chat_body_def u_eq_iff)

lemma chat_body_no_null: "PNone \<notin> snd ` set (chat_body payload flag)"
  by (cases "temperature payload"; cases "tools payload"; cases "tool_choice payload = PNone")
     (auto simp: chat_body_def u_eq_iff)

text \<open>
  Claim C8. The one request that \<open>_request_chat\<close> sends and the one that \<open>_stream_chat\<close>
  sends carry a JSON body whose keys are \<open>model\<close>, \<open>messages\<close> and \<open>stream\<close>, followed by
  \<open>temperature\<close>, \<open>tools\<close> and \<open>tool_choice\<close>, each exactly when that field of the request is
  not \<open>None\<close>; no value of the body is \<open>None\<close>.
\<close>

theorem C8_optional_fields_omitted:
  "map (\<lambda>req. map_option (map fst) (json_body req)) (snd (request_chat L do_post payload b))
     = [Some ([u ''model'', u ''messages'', u ''stream'']
         @ (if temperature payload = None then [] else [u ''temperature''])
         @ (if tools payload = None then [] else [u ''tools''])
         @ (if tool_choice payload = PNone then [] else [u ''tool_choice'']))]
   \<and> map (\<lambda>req. map_option (map fst) (json_body req)) (snd (stream_chat L do_stream payload b))
     = [Some ([u ''model'', u ''messages'', u ''stream'']
         @ (if temperature payload = None then [] else [u ''temperature''])
         @ (if tools payload = None then [] else [u ''tools''])
         @ (if tool_choice payload = PNone then [] else [u ''tool_choice'']))]
   \<and> PNone \<notin> snd ` set (chat_body payload False)
   \<and> PNone \<notin> snd ` set (chat_body payload True)
   \<and> (u ''temperature'' \<in> fst ` set (chat_body payload flag) \<longleftrightarrow> temperature payload \<noteq> None)
   \<and> (u ''tools'' \<in> fst ` set (chat_body payload flag) \<longleftrightarrow> tools payload \<noteq> None)
   \<and> (u ''tool_choice'' \<in> fst ` set (chat_body payload flag) \<longleftrightarrow> tool_choice payload \<noteq> PNone)
   \<and> {u ''model'', u ''messages'', u ''stream''} \<subseteq> fst ` set (chat_body payload flag)"
proof -
  have s: "fst ` set (chat_body payload flag) = set (map fst (chat_body payload flag))" by simp
  show ?thesis
    unfolding s chat_body_keys
    by (simp add: request_chat_calls stream_chat_calls chat_request_body chat_body_keys
        chat_body_no_null u_eq_iff)
qed

theorem C8_witness:
  "map (\<lambda>req. map_option (map fst) (json_body req))
      (snd (request_chat (sample_lib parse_http_x no_json) (fails_with (TimeoutException []))
         (sample_payload (u ''k'') False) (u ''http://x'')))
     = [Some [u ''model'', u ''messages'', u ''stream'']]
   \<and> map (\<lambda>req. map_option (map fst) (json_body req))
      (snd (stream_chat (sample_lib parse_http_x no_json) (fails_with (TimeoutException []))
         ((sample_payload (u ''k'') True)\<lparr> temperature := Some (Finite 1 (-1)) \<rparr>) (u ''http://x'')))
     = [Some [u ''model'', u ''messages'', u ''stream'', u ''temperature'']]"
  using C8_optional_fields_omitted [where payload = "sample_payload (u ''k'') False"
      and L = "sample_lib parse_http_x no_json" and do_post = "fails_with (TimeoutException [])"
      and b = "u ''http://x''" and flag = False and do_stream = "fails_with (TimeoutException [])"]
    C8_optional_fields_omitted [where
      payload = "(sample_payload (u ''k'') True)\<lparr> temperature := Some (Finite 1 (-1)) \<rparr>"
      and L = "sample_lib parse_http_x no_json" and do_post = "fails_with (TimeoutException [])"
      and b = "u ''http://x''" and flag = True and do_stream = "fails_with (TimeoutException [])"]
  by (simp add: sample_payload_def)

section \<open>Listing models\<close>

lemma collect_models_eq: "collect_models L items = map (entry_of L) (filter has_nonempty_id items)"
proof (induction items)
  case Nil
  then show ?case by simp
next
  case (Cons item items)
  then show ?case
    by (cases item) (simp_all add: has_nonempty_id_def entry_of_def dict_get_def split: option.splits)
qed

lemma normalize_sample:
  "normalize_base_url (sample_lib parse_http_x jl) (u ''http://x/'') = Inr (u ''http://x'')"
  by (simp add: normalize_base_url_def sample_lib_def parse_http_x_def py_strip_def
      py_rstrip_def py_isspace_def py_lower_def ascii_lower_def u_def)

lemma key_k_not_blank: "\<not> (\<forall>c\<in>set (u ''k''). py_isspace c)"
  by (simp add: py_isspace_def u_def)

lemma fetch_models_response:
  assumes "\<not> (\<forall>c\<in>set key. py_isspace c)"
    and "normalize_base_url L b = Inr normalized"
    and "do_get \<lparr> req_method = u ''GET'', url = normalized @ u ''/v1/models'',
                   headers = [(u ''Accept'', u ''application/json''),
                              (u ''Authorization'', u ''Bearer '' @ key)],
                   json_body = None \<rparr> = Inr r"
  shows "fst (fetch_models L do_get b key) =
           (if status_code r = 401 then Inl (UnauthorizedError (u ''Unauthorized''))
            else if status_code r = 429 then Inl (RateLimitedError (u ''Rate limit exceeded''))
            else if 400 \<le> status_code r then
              Inl (NetworkError (u ''Upstream error: '' @ str_int (status_code r))
                     (Some [(u ''status_code'', PInt (status_code r))]))
            else case json r of
                   NotJson m \<Rightarrow> Inl (ValidationError
                                  [0x54CD, 0x5E94, 0x89E3, 0x6790, 0x5931, 0x8D25]
                                  (Some [(u ''error'', PStr m)]))
                 | TooDeep m \<Rightarrow> Inl (RecursionError m)
                 | Parsed body \<Rightarrow> Inr (listed_models L body))"
proof -
  from assms(1) have k: "\<not> (key = [] \<or> py_strip key = [])" by (simp add: blank_iff)
  have d: "(case json r of
              NotJson m \<Rightarrow> Inl (ValidationError
                              [0x54CD, 0x5E94, 0x89E3, 0x6790, 0x5931, 0x8D25]
                              (Some [(u ''error'', PStr m)]))
            | TooDeep m \<Rightarrow> Inl (RecursionError m)
            | Parsed payload \<Rightarrow>
                let data = (case payload of PDict kvs \<Rightarrow> dict_get kvs (u ''data'') PNone
                            | _ \<Rightarrow> PNone)
                in (case data of PList items \<Rightarrow> Inr (collect_models L items) | _ \<Rightarrow> Inr []))
         = (case json r of
              NotJson m \<Rightarrow> Inl (ValidationError
                              [0x54CD, 0x5E94, 0x89E3, 0x6790, 0x5931, 0x8D25]
                              (Some [(u ''error'', PStr m)]))
            | TooDeep m \<Rightarrow> Inl (RecursionError m)
            | Parsed body \<Rightarrow> Inr (listed_models L body))"
    by (auto simp: listed_models_def collect_models_eq dict_get_def Let_def
        split: json_outcome.splits pyval.splits option.splits)
  show ?thesis
    using k assms(2,3) d by (simp add: fetch_models_def Let_def)
qed

text \<open>
  Claim C7, at an input where the code departs from it. The upstream answers the GET
  with status 200 and a body of 2000 opening brackets, which is not JSON.
  \<open>response.json()\<close> raises \<open>RecursionError\<close> on it, which is not a \<open>ValueError\<close>: the
  \<open>except ValueError\<close> clause of \<open>fetch_models\<close> does not catch it, so the call ends with
  \<open>RecursionError\<close>, which has no error code, and not with \<open>ValidationError\<close>.
\<close>

theorem C7_deep_body_escapes:
  "fetch_models (sample_lib parse_http_x jl)
      (replies \<lparr> status_code = 200, resp_text = replicate 2000 (of_char (CHR ''['')),
                 json = TooDeep m \<rparr>)
      (u ''http://x/'') (u ''k'')
     = (Inl (RecursionError m),
        [\<lparr> req_method = u ''GET'', url = u ''http://x'' @ u ''/v1/models'',
           headers = [(u ''Accept'', u ''application/json''),
                      (u ''Authorization'', u ''Bearer '' @ u ''k'')],
           json_body = None \<rparr>])
   \<and> error_code (RecursionError m) = None"
proof -
  have k: "\<not> (u ''k'' = [] \<or> py_strip (u ''k'') = [])"
    using key_k_not_blank by (simp add: blank_iff)
  show ?thesis
    using k by (simp add: fetch_models_def normalize_sample replies_def Let_def)
qed

text \<open>
  What \<open>fetch_models\<close> does on every 2xx answer, when the credential is not blank and
  the base URL normalizes: a body on which the parser raises \<open>ValueError\<close> makes it raise
  \<open>ValidationError\<close> (error code \<open>VALIDATION_ERROR\<close>); a body on which the parser raises
  \<open>RecursionError\<close> makes it raise that error; otherwise the result is \<open>listed_models\<close>
  of the parsed body, that is the empty list unless the body is an object whose \<open>data\<close>
  is an array, and else the entries of the elements of \<open>data\<close> that are objects with a
  non-empty \<open>id\<close>, in their order. An element whose \<open>id\<close> is a string counts exactly
  when the string is not empty, and its entry has that string.
\<close>

theorem fetch_models_2xx:
  assumes "\<not> (\<forall>c\<in>set key. py_isspace c)"
    and "normalize_base_url L b = Inr normalized"
    and "do_get \<lparr> req_method = u ''GET'', url = normalized @ u ''/v1/models'',
                   headers = [(u ''Accept'', u ''application/json''),
                              (u ''Authorization'', u ''Bearer '' @ key)],
                   json_body = None \<rparr> = Inr r"
    and "200 \<le> status_code r" and "status_code r < 300"
  shows "fst (fetch_models L do_get b key) =
           (case json r of
              NotJson m \<Rightarrow> Inl (ValidationError
                             [0x54CD, 0x5E94, 0x89E3, 0x6790, 0x5931, 0x8D25]
                             (Some [(u ''error'', PStr m)]))
            | TooDeep m \<Rightarrow> Inl (RecursionError m)
            | Parsed body \<Rightarrow> Inr (listed_models L body))
       \<and> error_code (ValidationError [0x54CD, 0x5E94, 0x89E3, 0x6790, 0x5931, 0x8D25] d)
           = Some VALIDATION_ERROR
       \<and> (map_of kvs (u ''id'') = Some (PStr s) \<longrightarrow>
            has_nonempty_id (PDict kvs) = (s \<noteq> []) \<and> entry_of L (PDict kvs) = SupplierModel s)"
proof -
  from assms(4,5) have "status_code r \<noteq> 401" "status_code r \<noteq> 429" "\<not> 400 \<le> status_code r"
    by simp_all
  then have "fst (fetch_models L do_get b key) =
           (case json r of
              NotJson m \<Rightarrow> Inl (ValidationError
                             [0x54CD, 0x5E94, 0x89E3, 0x6790, 0x5931, 0x8D25]
                             (Some [(u ''error'', PStr m)]))
            | TooDeep m \<Rightarrow> Inl (RecursionError m)
            | Parsed body \<Rightarrow> Inr (listed_models L body))"
    using assms(1,2,3)
      fetch_models_response [where key = key and L = L and b = b and normalized = normalized
        and do_get = do_get and r = r]
    by simp
  then show ?thesis
    by (simp add: has_nonempty_id_def entry_of_def)
qed

theorem fetch_models_2xx_witness:
  "\<not> py_isspace (of_char (CHR ''k''))
   \<and> normalize_base_url (sample_lib parse_http_x no_json) (u ''http://x/'') = Inr (u ''http://x'')
   \<and> fst (fetch_models (sample_lib parse_http_x no_json)
        (replies \<lparr> status_code = 200, resp_text = u ''{...}'',
                   json = Parsed (PDict [(u ''data'',
                            PList [PDict [(u ''id'', PStr (u ''gpt-a''))],
                                   PDict [(u ''no_id'', PBool True)],
                                   PDict [(u ''id'', PStr [])]])]) \<rparr>)
        (u ''http://x/'') (u ''k''))
       = Inr [SupplierModel (u ''gpt-a'')]"
proof -
  let ?L = "sample_lib parse_http_x no_json"
  let ?body = "PDict [(u ''data'', PList [PDict [(u ''id'', PStr (u ''gpt-a''))],
                                        PDict [(u ''no_id'', PBool True)],
                                        PDict [(u ''id'', PStr [])]])]"
  let ?r = "\<lparr> status_code = 200, resp_text = u ''{...}'', json = Parsed ?body \<rparr>"
  have h0: "\<not> py_isspace (of_char (CHR ''k''))" by (simp add: py_isspace_def)
  have h1: "\<not> (\<forall>c\<in>set (u ''k''). py_isspace c)" by (rule key_k_not_blank)
  have h2: "normalize_base_url ?L (u ''http://x/'') = Inr (u ''http://x'')" by (rule normalize_sample)
  have h3: "replies ?r \<lparr> req_method = u ''GET'', url = u ''http://x'' @ u ''/v1/models'',
                   headers = [(u ''Accept'', u ''application/json''),
                              (u ''Authorization'', u ''Bearer '' @ u ''k'')],
                   json_body = None \<rparr> = Inr ?r"
    by (simp add: replies_def)
  have l: "listed_models ?L ?body = [SupplierModel (u ''gpt-a'')]"
    by (simp add: listed_models_def has_nonempty_id_def entry_of_def u_eq_iff u_Nil_iff)
  have h4: "200 \<le> status_code ?r" "status_code ?r < 300" by simp_all
  show ?thesis
    using h0 h1 h2 h4 l
      fetch_models_2xx [where key = "u ''k''" and L = ?L and b = "u ''http://x/''"
        and normalized = "u ''http://x''" and do_get = "replies ?r" and r = ?r and d = None
        and kvs = "[]" and s = "[]"]
    using h3 by simp
qed

text \<open>
  An upstream answer with status 500 to the model listing: \<open>fetch_models\<close> raises
  \<open>NetworkError\<close>, whose error code is \<open>NETWORK_ERROR\<close>, not \<open>UPSTREAM_ERROR\<close>.
\<close>

theorem C3_counterexample:
  "fst (fetch_models (sample_lib parse_http_x no_json)
        (replies \<lparr> status_code = 500, resp_text = u ''oops'',
                   json = NotJson (u ''Expecting value'') \<rparr>)
        (u ''http://x/'') (u ''k''))
     = Inl (NetworkError (u ''Upstream error: 500'') (Some [(u ''status_code'', PInt 500)]))
   \<and> map_option ErrorCode_value
        (error_code (NetworkError (u ''Upstream error: 500'')
                       (Some [(u ''status_code'', PInt 500)])))
     = Some (u ''NETWORK_ERROR'')
   \<and> u ''NETWORK_ERROR'' \<noteq> u ''UPSTREAM_ERROR''"
proof -
  let ?L = "sample_lib parse_http_x no_json"
  let ?r = "\<lparr> status_code = 500, resp_text = u ''oops'', json = NotJson (u ''Expecting value'') \<rparr>"
  have h1: "\<not> (\<forall>c\<in>set (u ''k''). py_isspace c)" by (rule key_k_not_blank)
  have h2: "normalize_base_url ?L (u ''http://x/'') = Inr (u ''http://x'')" by (rule normalize_sample)
  have h3: "replies ?r \<lparr> req_method = u ''GET'', url = u ''http://x'' @ u ''/v1/models'',
                   headers = [(u ''Accept'', u ''application/json''),
                              (u ''Authorization'', u ''Bearer '' @ u ''k'')],
                   json_body = None \<rparr> = Inr ?r"
    by (simp add: replies_def)
  have m: "u ''Upstream error: '' @ u ''500'' = u ''Upstream error: 500''" by (simp add: u_def)
  show ?thesis
    using h1 h2 h3
      fetch_models_response [where key = "u ''k''" and L = ?L and b = "u ''http://x/''"
        and normalized = "u ''http://x''" and do_get = "replies ?r" and r = ?r]
    by (simp add: str_int_500 m u_eq_iff)
qed

text \<open>
  Claim C3, as the code has it. When the credential is not blank, the base URL
  normalizes and the upstream answers the GET with a status of 400 or more,
  \<open>fetch_models\<close> raises \<open>UnauthorizedError\<close> for 401, \<open>RateLimitedError\<close> for 429, and for
  every other status \<open>NetworkError\<close> with the message \<open>Upstream error: <status>\<close> and the
  numeric status in its details; the error codes are \<open>UNAUTHORIZED\<close>, \<open>RATE_LIMITED\<close> and
  \<open>NETWORK_ERROR\<close>.
\<close>

theorem C3_upstream_status_errors:
  assumes "\<not> (\<forall>c\<in>set key. py_isspace c)"
    and "normalize_base_url L b = Inr normalized"
    and "do_get \<lparr> req_method = u ''GET'', url = normalized @ u ''/v1/models'',
                   headers = [(u ''Accept'', u ''application/json''),
                              (u ''Authorization'', u ''Bearer '' @ key)],
                   json_body = None \<rparr> = Inr r"
    and "400 \<le> status_code r"
  shows "fst (fetch_models L do_get b key) =
           Inl (if status_code r = 401 then UnauthorizedError (u ''Unauthorized'')
                else if status_code r = 429 then RateLimitedError (u ''Rate limit exceeded'')
                else NetworkError (u ''Upstream error: '' @ str_int (status_code r))
                       (Some [(u ''status_code'', PInt (status_code r))]))
       \<and> map_option ErrorCode_value
            (error_code (if status_code r = 401 then UnauthorizedError (u ''Unauthorized'')
                else if status_code r = 429 then RateLimitedError (u ''Rate limit exceeded'')
                else NetworkError (u ''Upstream error: '' @ str_int (status_code r))
                       (Some [(u ''status_code'', PInt (status_code r))])))
           = Some (if status_code r = 401 then u ''UNAUTHORIZED''
                   else if status_code r = 429 then u ''RATE_LIMITED''
                   else u ''NETWORK_ERROR'')"
  using assms
    fetch_models_response [where key = key and L = L and b = b and normalized = normalized
      and do_get = do_get and r = r]
  by simp

theorem C3_witness:
  "\<not> py_isspace (of_char (CHR ''k''))
   \<and> normalize_base_url (sample_lib parse_http_x no_json) (u ''http://x/'') = Inr (u ''http://x'')
   \<and> (400::int) \<le> 503
   \<and> fst (fetch_models (sample_lib parse_http_x no_json)
        (replies \<lparr> status_code = 503, resp_text = u ''busy'',
                   json = NotJson (u ''Expecting value'') \<rparr>)
        (u ''http://x/'') (u ''k''))
       = Inl (NetworkError (u ''Upstream error: 503'') (Some [(u ''status_code'', PInt 503)]))"
proof -
  let ?L = "sample_lib parse_http_x no_json"
  let ?r = "\<lparr> status_code = 503, resp_text = u ''busy'', json = NotJson (u ''Expecting value'') \<rparr>"
  have h0: "\<not> py_isspace (of_char (CHR ''k''))" by (simp add: py_isspace_def)
  have h1: "\<not> (\<forall>c\<in>set (u ''k''). py_isspace c)" by (rule key_k_not_blank)
  have h2: "normalize_base_url ?L (u ''http://x/'') = Inr (u ''http://x'')" by (rule normalize_sample)
  have h3: "replies ?r \<lparr> req_method = u ''GET'', url = u ''http://x'' @ u ''/v1/models'',
                   headers = [(u ''Accept'', u ''application/json''),
                              (u ''Authorization'', u ''Bearer '' @ u ''k'')],
                   json_body = None \<rparr> = Inr ?r"
    by (simp add: replies_def)
  have h4: "400 \<le> status_code ?r" by simp
  have m: "u ''Upstream error: '' @ u ''503'' = u ''Upstream error: 503''" by (simp add: u_def)
  show ?thesis
    using h0 h1 h2 h3 h4
      C3_upstream_status_errors [where key = "u ''k''" and L = ?L and b = "u ''http://x/''"
        and normalized = "u ''http://x''" and do_get = "replies ?r" and r = ?r]
    by (simp add: str_int_503 m)
qed

section \<open>Normalizing the base URL\<close>

lemma py_rstrip_last:
  assumes "py_rstrip p s \<noteq> []"
  shows "\<not> p (last (py_rstrip p s))"
proof -
  from assms have ne: "dropWhile p (rev s) \<noteq> []" by (simp add: py_rstrip_def)
  then have "\<not> p (hd (dropWhile p (rev s)))" by (rule hd_dropWhile)
  moreover have "last (py_rstrip p s) = hd (dropWhile p (rev s))"
    using ne by (simp add: py_rstrip_def last_rev)
  ultimately show ?thesis by simp
qed

lemma py_rstrip_decompose:
  "s = py_rstrip (\<lambda>c. c = x) s
        @ replicate (length s - length (py_rstrip (\<lambda>c. c = x) s)) x"
proof -
  let ?p = "\<lambda>c. c = x"
  let ?t = "takeWhile ?p (rev s)"
  have "rev (?t @ dropWhile ?p (rev s)) = s"
    by (simp only: takeWhile_dropWhile_id rev_rev_ident)
  then have "rev (dropWhile ?p (rev s)) @ rev ?t = s"
    by (simp only: rev_append)
  then have s: "s = py_rstrip ?p s @ rev ?t"
    by (simp only: py_rstrip_def)
  have "\<forall>y\<in>set (rev ?t). y = x" by (auto dest: set_takeWhileD)
  then have r: "replicate (length (rev ?t)) x = rev ?t" by (rule replicate_length_same)
  have "length s = length (py_rstrip ?p s) + length (rev ?t)"
    using s by (metis length_append)
  then have "length (rev ?t) = length s - length (py_rstrip ?p s)" by simp
  with r s show ?thesis by simp
qed

text \<open>
  Claim C5, at the inputs where the code departs from it. \<open>urlparse\<close> raises
  \<open>ValueError\<close> on a URL with an unbalanced bracket in its host; \<open>_normalize_base_url\<close>
  does not catch it, so the call neither fails with \<open>ValidationError\<close> nor succeeds. And
  the parse of \<^verbatim>\<open>http://:80\<close> has a network location and no hostname: the test of
  \<open>_normalize_base_url\<close> is on the network location, so the call succeeds on a URL that
  has no host.
\<close>

theorem C5_parse_failure_escapes:
  "normalize_base_url (sample_lib parse_raises no_json) (u ''http://[::1'')
     = Inl (ValueError (u ''Invalid IPv6 URL''))
   \<and> error_code (ValueError (u ''Invalid IPv6 URL'')) = None
   \<and> hostname \<lparr> scheme = u ''http'', netloc = u '':80'', hostname = None \<rparr> = None
   \<and> normalize_base_url (sample_lib parse_port_only no_json) (u ''http://:80'')
     = Inr (u ''http://:80'')"
  by (simp add: normalize_base_url_def sample_lib_def parse_raises_def parse_port_only_def
      py_strip_def py_rstrip_def py_isspace_def py_lower_def u_def)

text \<open>
  What \<open>_normalize_base_url\<close> does on every input that \<open>urlparse\<close> accepts: it raises
  \<open>ValidationError\<close> exactly when the input is empty or whitespace only, or the parse has
  an empty scheme or an empty network location, or the lower-cased hostname is one of
  \<open>localhost\<close>, \<open>127.0.0.1\<close>, \<open>::1\<close>; otherwise it returns the input without its
  trailing slashes: the result does not end in a slash, and the input is the result
  followed by slashes only.
\<close>

theorem normalize_base_url_parsed:
  assumes "urlparse L b = Inr parsed"
  shows "normalize_base_url L b =
           (if \<forall>c\<in>set b. py_isspace c then
              Inl (ValidationError (u ''API '' @ [0x5730, 0x5740, 0x4E0D, 0x80FD, 0x4E3A, 0x7A7A])
                     None)
            else if scheme parsed = [] \<or> netloc parsed = [] then
              Inl (ValidationError (u ''API '' @ [0x5730, 0x5740, 0x65E0, 0x6548]) None)
            else if py_lower L (case hostname parsed of None \<Rightarrow> [] | Some h \<Rightarrow> h)
                      \<in> {u ''localhost'', u ''127.0.0.1'', u ''::1''} then
              Inl (ValidationError
                     (u ''API '' @ [0x5730, 0x5740, 0x4E0D, 0x80FD, 0x4E3A] @ u '' localhost'')
                     None)
            else Inr (py_rstrip (\<lambda>c. c = of_char (CHR ''/'')) b))
       \<and> (py_rstrip (\<lambda>c. c = of_char (CHR ''/'')) b = []
            \<or> last (py_rstrip (\<lambda>c. c = of_char (CHR ''/'')) b) \<noteq> of_char (CHR ''/''))
       \<and> b = py_rstrip (\<lambda>c. c = of_char (CHR ''/'')) b
               @ replicate (length b - length (py_rstrip (\<lambda>c. c = of_char (CHR ''/'')) b))
                   (of_char (CHR ''/''))"
proof -
  have a: "(b = [] \<or> py_strip b = []) = (\<forall>c\<in>set b. py_isspace c)" by (rule blank_iff)
  have n: "normalize_base_url L b =
           (if \<forall>c\<in>set b. py_isspace c then
              Inl (ValidationError (u ''API '' @ [0x5730, 0x5740, 0x4E0D, 0x80FD, 0x4E3A, 0x7A7A])
                     None)
            else if scheme parsed = [] \<or> netloc parsed = [] then
              Inl (ValidationError (u ''API '' @ [0x5730, 0x5740, 0x65E0, 0x6548]) None)
            else if py_lower L (case hostname parsed of None \<Rightarrow> [] | Some h \<Rightarrow> h)
                      \<in> {u ''localhost'', u ''127.0.0.1'', u ''::1''} then
              Inl (ValidationError
                     (u ''API '' @ [0x5730, 0x5740, 0x4E0D, 0x80FD, 0x4E3A] @ u '' localhost'')
                     None)
            else Inr (py_rstrip (\<lambda>c. c = of_char (CHR ''/'')) b))"
    unfolding normalize_base_url_def a using assms by (simp add: Let_def)
  have l: "py_rstrip (\<lambda>c. c = of_char (CHR ''/'')) b = []
           \<or> last (py_rstrip (\<lambda>c. c = of_char (CHR ''/'')) b) \<noteq> of_char (CHR ''/'')"
    using py_rstrip_last [of "\<lambda>c. c = of_char (CHR ''/'')" b] by blast
  from n l py_rstrip_decompose [of b "of_char (CHR ''/'')"] show ?thesis by blast
qed

theorem normalize_base_url_parsed_witness:
  "urlparse (sample_lib parse_http_x no_json) (u ''http://x///'')
     = Inr \<lparr> scheme = u ''http'', netloc = u ''x'', hostname = Some (u ''x'') \<rparr>
   \<and> normalize_base_url (sample_lib parse_http_x no_json) (u ''http://x///'') = Inr (u ''http://x'')
   \<and> normalize_base_url (sample_lib parse_http_x no_json) (u ''http://x'') = Inr (u ''http://x'')"
proof -
  let ?L = "sample_lib parse_http_x no_json"
  let ?p = "\<lparr> scheme = u ''http'', netloc = u ''x'', hostname = Some (u ''x'') \<rparr>"
  have h: "urlparse ?L (u ''http://x///'') = Inr ?p" "urlparse ?L (u ''http://x'') = Inr ?p"
    by (simp_all add: sample_lib_def parse_http_x_def)
  have e: "py_lower ?L (u ''x'') = u ''x''"
    by (simp add: py_lower_def ascii_lower_def u_def)
  have s: "\<not> (\<forall>c\<in>set (u ''http://x///''). py_isspace c)" "\<not> (\<forall>c\<in>set (u ''http://x''). py_isspace c)"
    by (simp_all add: py_isspace_def u_def)
  have r: "py_rstrip (\<lambda>c. c = 47) (u ''http://x///'') = u ''http://x''"
    "py_rstrip (\<lambda>c. c = 47) (u ''http://x'') = u ''http://x''"
    by (simp_all add: py_rstrip_def u_def)
  show ?thesis
    using h normalize_base_url_parsed [where L = ?L and b = "u ''http://x///''" and parsed = ?p]
      normalize_base_url_parsed [where L = ?L and b = "u ''http://x''" and parsed = ?p]
    by (simp add: e s r u_eq_iff u_Nil_iff)
qed

end
